theory Spec2Isabelle
  imports Main "HOL-Library.Monad_Syntax" "HOL-Library.Word"
begin

section \<open>Go strings\<close>

text \<open>
  A Go string is a sequence of bytes: \<^typ>\<open>string\<close>. The functions of package
  \<open>strings\<close> that the repository calls are written out here, following the
  standard library: \<open>Index\<close>, \<open>Split\<close>, \<open>ReplaceAll\<close>, \<open>TrimSpace\<close>,
  \<open>TrimSuffix\<close>, \<open>HasPrefix\<close>, \<open>TrimPrefix\<close>.
\<close>

definition dquote :: char where
  "dquote = CHR 0x22"

definition HasPrefix :: "string \<Rightarrow> string \<Rightarrow> bool" where
  "HasPrefix s p = (length p \<le> length s \<and> take (length p) s = p)"

definition HasSuffix :: "string \<Rightarrow> string \<Rightarrow> bool" where
  "HasSuffix s p = (length p \<le> length s \<and> drop (length s - length p) s = p)"

definition TrimPrefix :: "string \<Rightarrow> string \<Rightarrow> string" where
  "TrimPrefix s p = (if HasPrefix s p then drop (length p) s else s)"

definition TrimSuffix :: "string \<Rightarrow> string \<Rightarrow> string" where
  "TrimSuffix s p = (if HasSuffix s p then take (length s - length p) s else s)"

text \<open>\<open>strings.Index\<close>: the position of the first occurrence, \<open>None\<close> for Go's -1.\<close>

fun Index :: "string \<Rightarrow> string \<Rightarrow> nat option" where
  "Index [] sub = (if sub = [] then Some 0 else None)"
| "Index (c # cs) sub =
     (if HasPrefix (c # cs) sub then Some 0 else map_option Suc (Index cs sub))"

lemma Index_bound: "Index s sub = Some m \<Longrightarrow> m + length sub \<le> length s"
proof (induction s arbitrary: m)
  case Nil
  then show ?case by (simp split: if_splits)
next
  case (Cons c cs)
  show ?case
  proof (cases "HasPrefix (c # cs) sub")
    case True
    with Cons.prems show ?thesis by (simp add: HasPrefix_def)
  next
    case False
    with Cons.prems obtain k where "Index cs sub = Some k" "m = Suc k" by auto
    with Cons.IH [of k] show ?thesis by simp
  qed
qed


text \<open>
  \<open>strings.Split(s, sep)\<close> (\<open>genSplit\<close> with \<open>n = -1\<close>): cut at each
  occurrence of \<open>sep\<close>, left to right, and keep the rest as the last element. With an
  empty separator Go explodes the string into its UTF-8 sequences; no caller in this
  repository passes one, and the model returns the single bytes.
\<close>

function Split :: "string \<Rightarrow> string \<Rightarrow> string list" where
  "Split s sep =
     (if sep = [] then map (\<lambda>c. [c]) s
      else case Index s sep of
             None \<Rightarrow> [s]
           | Some m \<Rightarrow> take m s # Split (drop (m + length sep) s) sep)"
  by pat_completeness auto
termination
proof (relation "measure (\<lambda>(s, sep). length s)")
  show "wf (measure (\<lambda>(s, sep). length s))" by simp
next
  fix s sep :: string and m :: nat
  assume sep: "sep \<noteq> []" and m: "Index s sep = Some m"
  from sep obtain c cs where "sep = c # cs"
    by (cases sep) auto
  with Index_bound [OF m]
  show "((drop (m + length sep) s, sep), (s, sep)) \<in> measure (\<lambda>(s, sep). length s)"
    by simp
qed

declare Split.simps [simp del]

text \<open>
  \<open>strings.ReplaceAll(s, old, new)\<close>: every non-overlapping occurrence of \<open>old\<close>,
  left to right. With an empty \<open>old\<close> Go inserts \<open>new\<close> around every UTF-8 sequence;
  no caller in this repository passes one, and the model does so around every byte.
\<close>

function ReplaceAll :: "string \<Rightarrow> string \<Rightarrow> string \<Rightarrow> string" where
  "ReplaceAll s old new =
     (if old = [] then new @ concat (map (\<lambda>c. c # new) s)
      else case Index s old of
             None \<Rightarrow> s
           | Some m \<Rightarrow> take m s @ new @ ReplaceAll (drop (m + length old) s) old new)"
  by pat_completeness auto
termination
proof (relation "measure (\<lambda>(s, old, new). length s)")
  show "wf (measure (\<lambda>(s, old, new). length s))" by simp
next
  fix s old new :: string and m :: nat
  assume old: "old \<noteq> []" and m: "Index s old = Some m"
  from old obtain c cs where "old = c # cs"
    by (cases old) auto
  with Index_bound [OF m]
  show "((drop (m + length old) s, old, new), (s, old, new))
          \<in> measure (\<lambda>(s, old, new). length s)"
    by simp
qed

declare ReplaceAll.simps [simp del]

text \<open>
  \<open>strings.TrimSpace\<close> removes the white space of \<open>unicode.IsSpace\<close> from both
  ends: the six ASCII characters, and the runes U+0085, U+00A0, U+1680,
  U+2000 .. U+200A, U+2028, U+2029, U+202F, U+205F, U+3000 in their UTF-8 encoding.
\<close>

definition asciiSpace :: "char \<Rightarrow> bool" where
  "asciiSpace c =
     (c = CHR 0x09 \<or> c = CHR 0x0A \<or> c = CHR 0x0B \<or> c = CHR 0x0C \<or> c = CHR 0x0D \<or> c = CHR 0x20)"

definition space2 :: "char \<Rightarrow> char \<Rightarrow> bool" where
  "space2 a b = (a = CHR 0xC2 \<and> (b = CHR 0x85 \<or> b = CHR 0xA0))"

definition space3 :: "char \<Rightarrow> char \<Rightarrow> char \<Rightarrow> bool" where
  "space3 a b c =
     ((a = CHR 0xE1 \<and> b = CHR 0x9A \<and> c = CHR 0x80) \<or>
      (a = CHR 0xE2 \<and> b = CHR 0x80 \<and>
         ((0x80 \<le> (of_char c :: nat) \<and> (of_char c :: nat) \<le> 0x8A) \<or>
          c = CHR 0xA8 \<or> c = CHR 0xA9 \<or> c = CHR 0xAF)) \<or>
      (a = CHR 0xE2 \<and> b = CHR 0x81 \<and> c = CHR 0x9F) \<or>
      (a = CHR 0xE3 \<and> b = CHR 0x80 \<and> c = CHR 0x80))"

fun TrimLeftSpace :: "string \<Rightarrow> string" where
  "TrimLeftSpace (a # b # c # s) =
     (if asciiSpace a then TrimLeftSpace (b # c # s)
      else if space2 a b then TrimLeftSpace (c # s)
      else if space3 a b c then TrimLeftSpace s
      else a # b # c # s)"
| "TrimLeftSpace [a, b] =
     (if asciiSpace a then TrimLeftSpace [b]
      else if space2 a b then []
      else [a, b])"
| "TrimLeftSpace [a] = (if asciiSpace a then [] else [a])"
| "TrimLeftSpace [] = []"

text \<open>The same from the end, on the reversed string: the last rune is read backwards.\<close>

fun TrimRightSpace_rev :: "string \<Rightarrow> string" where
  "TrimRightSpace_rev (c # b # a # s) =
     (if asciiSpace c then TrimRightSpace_rev (b # a # s)
      else if space2 b c then TrimRightSpace_rev (a # s)
      else if space3 a b c then TrimRightSpace_rev s
      else c # b # a # s)"
| "TrimRightSpace_rev [c, b] =
     (if asciiSpace c then TrimRightSpace_rev [b]
      else if space2 b c then []
      else [c, b])"
| "TrimRightSpace_rev [c] = (if asciiSpace c then [] else [c])"
| "TrimRightSpace_rev [] = []"

definition TrimSpace :: "string \<Rightarrow> string" where
  "TrimSpace s = rev (TrimRightSpace_rev (rev (TrimLeftSpace s)))"

text \<open>
  Indexing a slice: Go panics when the index is out of range, which is \<open>None\<close> here.
\<close>

definition index :: "'a list \<Rightarrow> nat \<Rightarrow> 'a option" where
  "index xs i = (if i < length xs then Some (xs ! i) else None)"

section \<open>Package response: the validation detail parser\<close>

record Field =
  Field :: string
  Message :: string
  Location :: string

definition formatMessage :: "string \<Rightarrow> string \<Rightarrow> string" where
  "formatMessage s v = ReplaceAll v (s @ '':'') []"

definition getFieldNameAndLocation :: "string \<Rightarrow> (string \<times> string) option" where
  "getFieldNameAndLocation data =
     (let res = Split (TrimSpace data) ''@'' in
      if length res = 1 then Some (data, ''body'')
      else do {
        r0 \<leftarrow> index res 0;
        r1 \<leftarrow> index res 1;
        Some (TrimSpace r0, TrimSpace r1)
      })"

text \<open>
  The body of the \<open>for _, re := range res\<close> loop of \<open>newValidationErrorFields\<close>:
  the two \<open>if\<close> statements run one after the other on the same \<open>msg\<close>, and each
  appends at most one entry to \<open>errs\<close>. The second one passes the whole input
  \<open>err\<close> to \<open>formatMessage\<close>.
\<close>

definition appendSegment :: "string \<Rightarrow> string \<Rightarrow> Field list \<Rightarrow> Field list option" where
  "appendSegment err re0 errs =
     (let re = ReplaceAll re0 [dquote] [];
          msg = Split (TrimSpace re) '':''
      in do {
        errs1 \<leftarrow>
          (if length msg = 2 then do {
             m0 \<leftarrow> index msg 0;
             (field, location) \<leftarrow> getFieldNameAndLocation m0;
             m1 \<leftarrow> index msg 1;
             Some (errs @ [\<lparr>Field = field,
                            Message = TrimSuffix (TrimSpace m1) ''.'',
                            Location = location\<rparr>])
           } else Some errs);
        (if 2 < length msg then do {
           m0 \<leftarrow> index msg 0;
           (field, location) \<leftarrow> getFieldNameAndLocation m0;
           Some (errs1 @ [\<lparr>Field = field,
                           Message = TrimSuffix (TrimSpace (formatMessage m0 err)) ''.'',
                           Location = location\<rparr>])
         } else Some errs1)
      })"

fun rangeSegments :: "string \<Rightarrow> string list \<Rightarrow> Field list \<Rightarrow> Field list option" where
  "rangeSegments err [] errs = Some errs"
| "rangeSegments err (re # res) errs =
     (case appendSegment err re errs of
        None \<Rightarrow> None
      | Some errs' \<Rightarrow> rangeSegments err res errs')"

definition newValidationErrorFields :: "string \<Rightarrow> Field list option" where
  "newValidationErrorFields err =
     rangeSegments err (Split err [dquote, CHR '','', dquote]) []"

text \<open>What one pass of the loop body appends for a segment.\<close>

definition segmentFields :: "string \<Rightarrow> string \<Rightarrow> Field list" where
  "segmentFields err re = (case appendSegment err re [] of None \<Rightarrow> [] | Some es \<Rightarrow> es)"

section \<open>Package response: the decoded service error\<close>

text \<open>
  A JSON value, as \<open>encoding/json\<close> stores one in an \<open>interface{}\<close>. A number
  keeps its literal; the members of an object keep the order of the text.
\<close>

datatype json =
    JNull
  | JBool bool
  | JNumber string
  | JString string
  | JArray "json list"
  | JObject "(string \<times> json) list"

text \<open>
  \<open>serviceError\<close>: \<open>Code\<close> is an \<open>int32\<close>, \<open>Kind\<close> a plain string and
  \<open>SublevelError\<close> an \<open>interface{}\<close>, \<open>None\<close> for \<open>nil\<close>.
\<close>

record serviceError =
  Code :: "32 word"
  ServiceName :: string
  Message :: string
  Destination :: string
  Kind :: string
  SublevelError :: "json option"

definition knownServiceErrors :: "string \<rightharpoonup> bool" where
  "knownServiceErrors =
     [''ValidationError'' \<mapsto> True,
      ''InternalError'' \<mapsto> True,
      ''NotFoundError'' \<mapsto> True,
      ''ConditionError'' \<mapsto> True,
      ''PermissionError'' \<mapsto> True]"

definition IsKnownError :: "serviceError \<Rightarrow> bool" where
  "IsKnownError s = (case knownServiceErrors (serviceError.Kind s) of None \<Rightarrow> False | Some _ \<Rightarrow> True)"

definition StatusBadRequest :: int where "StatusBadRequest = 400"
definition StatusUnauthorized :: int where "StatusUnauthorized = 401"
definition StatusNotFound :: int where "StatusNotFound = 404"
definition StatusPreconditionFailed :: int where "StatusPreconditionFailed = 412"
definition StatusInternalServerError :: int where "StatusInternalServerError = 500"

definition ResponseCode :: "serviceError \<Rightarrow> int" where
  "ResponseCode s =
     (if serviceError.Kind s = ''ValidationError'' then StatusBadRequest
      else if serviceError.Kind s = ''NotFoundError'' then StatusNotFound
      else if serviceError.Kind s = ''ConditionError'' then StatusPreconditionFailed
      else if serviceError.Kind s = ''PermissionError'' then StatusUnauthorized
      else StatusInternalServerError)"

section \<open>Writing JSON\<close>

text \<open>
  What \<open>json.Marshal\<close> writes for the values this repository hands to it. A string
  is quoted with the escapes of the encoder in its default, HTML-safe mode: backslash
  and double quote behind a backslash, \<open>\n\<close>, \<open>\r\<close> and \<open>\t\<close> by name, every
  other byte below 0x20 and the three characters less-than, greater-than and ampersand
  as \<open>\u00XX\<close>. Bytes from 0x80 on are copied: the encoder does so for well-formed
  UTF-8 other than U+2028 and U+2029.
\<close>

definition backslash :: char where
  "backslash = CHR 0x5C"

definition hexDigit :: "nat \<Rightarrow> char" where
  "hexDigit n = (if n < 10 then char_of (48 + n) else char_of (87 + n))"

definition escapeByte :: "char \<Rightarrow> string" where
  "escapeByte c =
     (if c = backslash \<or> c = dquote then [backslash, c]
      else if c = CHR 0x0A then [backslash, CHR ''n'']
      else if c = CHR 0x0D then [backslash, CHR ''r'']
      else if c = CHR 0x09 then [backslash, CHR ''t'']
      else if (of_char c :: nat) < 0x20 \<or> c = CHR ''<'' \<or> c = CHR ''>'' \<or> c = CHR ''&''
        then [backslash, CHR ''u'', CHR ''0'', CHR ''0'',
              hexDigit ((of_char c :: nat) div 16), hexDigit ((of_char c :: nat) mod 16)]
      else [c])"

definition quoteJSON :: "string \<Rightarrow> string" where
  "quoteJSON s = dquote # concat (map escapeByte s) @ [dquote]"

text \<open>\<open>strconv.FormatInt(i, 10)\<close>.\<close>

function formatDigits :: "int \<Rightarrow> string" where
  "formatDigits n =
     (if n < 10 then [char_of (48 + n)]
      else formatDigits (n div 10) @ [char_of (48 + n mod 10)])"
  by pat_completeness auto
termination
  by (relation "measure nat") auto

declare formatDigits.simps [simp del]

definition formatInt :: "int \<Rightarrow> string" where
  "formatInt i = (if i < 0 then CHR ''-'' # formatDigits (- i) else formatDigits i)"

text \<open>
  An object is written as its members in order, each as the quoted name, a colon and
  the encoded value, separated by commas.
\<close>

fun joinMembers :: "(string \<times> string) list \<Rightarrow> string" where
  "joinMembers [] = []"
| "joinMembers [(k, v)] = quoteJSON k @ CHR '':'' # v"
| "joinMembers ((k, v) # m # ms) = quoteJSON k @ CHR '':'' # v @ CHR '','' # joinMembers (m # ms)"

definition encodeObject :: "(string \<times> string) list \<Rightarrow> string" where
  "encodeObject ms = CHR ''{'' # joinMembers ms @ ''}''"

section \<open>Package errors\<close>

text \<open>
  The dynamic value of a nested \<open>error\<close>, as far as this package observes it: its
  \<open>Error()\<close> text, which goes to the log, and what \<open>json.Marshal\<close> writes for it.
  \<open>ErrorString\<close> is the value of \<open>errors.New\<close>: a pointer to a struct with no
  exported field and no marshaling method, written as the empty object. Every other
  error value is given by its text and by the bytes \<open>json.Marshal\<close> returns for it,
  \<open>None\<close> when \<open>json.Marshal\<close> fails on it.
\<close>

datatype detail =
    ErrorString string
  | MarshaledError string "string option"

definition errors_New :: "string \<Rightarrow> detail" where
  "errors_New text = ErrorString text"

fun detailText :: "detail \<Rightarrow> string" where
  "detailText (ErrorString text) = text"
| "detailText (MarshaledError text _) = text"

fun marshalDetail :: "detail \<Rightarrow> string option" where
  "marshalDetail (ErrorString _) = Some ''{}''"
| "marshalDetail (MarshaledError _ out) = out"

definition CodeNotFound :: "32 word" where "CodeNotFound = 2"
definition CodeInvalidArgument :: "32 word" where "CodeInvalidArgument = 3"
definition CodePreconditionFailed :: "32 word" where "CodePreconditionFailed = 4"

definition KindValidation :: string where "KindValidation = ''ValidationError''"
definition KindInternal :: string where "KindInternal = ''InternalError''"
definition KindNotFound :: string where "KindNotFound = ''NotFoundError''"
definition KindPrecondition :: string where "KindPrecondition = ''ConditionError''"

record Error =
  Code :: "32 word"
  ServiceName :: string
  Message :: string
  Destination :: string
  Kind :: string
  SublevelError :: "detail option"
  hideDetails :: bool

text \<open>
  \<open>json.Marshal\<close> of an \<open>Error\<close> value, by its field tags: \<open>code\<close> and \<open>kind\<close>
  always, \<open>service_name\<close>, \<open>message\<close> and \<open>destination\<close> unless empty,
  \<open>details\<close> unless the interface is nil; \<open>hideDetails\<close> is not exported. The
  result is \<open>None\<close> when the nested error cannot be marshaled.
\<close>

definition marshalFields :: "Error \<Rightarrow> (string \<times> string) list option" where
  "marshalFields e =
     (case (case Error.SublevelError e of
              None \<Rightarrow> Some []
            | Some d \<Rightarrow> map_option (\<lambda>out. [(''details'', out)]) (marshalDetail d)) of
        None \<Rightarrow> None
      | Some details \<Rightarrow>
          Some ([(''code'', formatInt (sint (Error.Code e)))] @
                (if Error.ServiceName e = [] then []
                 else [(''service_name'', quoteJSON (Error.ServiceName e))]) @
                (if Error.Message e = [] then []
                 else [(''message'', quoteJSON (Error.Message e))]) @
                (if Error.Destination e = [] then []
                 else [(''destination'', quoteJSON (Error.Destination e))]) @
                [(''kind'', quoteJSON (Error.Kind e))] @
                details))"

definition json_Marshal_Error :: "Error \<Rightarrow> string option" where
  "json_Marshal_Error e = map_option encodeObject (marshalFields e)"

text \<open>
  \<open>Error.String\<close>: the copy \<open>out\<close> takes code, destination, kind and message, and
  the nested error, the service name and the destination again when the details are
  not hidden. The error of \<open>json.Marshal\<close> is dropped, and the bytes are then empty.
\<close>

definition String_out :: "Error \<Rightarrow> Error" where
  "String_out e =
     (let out = \<lparr>Error.Code = Error.Code e, ServiceName = [], Message = Error.Message e,
                 Destination = Error.Destination e, Kind = Error.Kind e,
                 SublevelError = None, hideDetails = False\<rparr>
      in if \<not> hideDetails e
         then out\<lparr>Error.SublevelError := Error.SublevelError e,
                  Error.ServiceName := Error.ServiceName e,
                  Error.Destination := Error.Destination e\<rparr>
         else out)"

definition String :: "Error \<Rightarrow> string" where
  "String e = (case json_Marshal_Error (String_out e) of None \<Rightarrow> [] | Some b \<Rightarrow> b)"

datatype level = Info | Warn | Error_level

record ServiceError =
  err_ptr :: Error
  attributes :: "(string \<times> string) list"
  logger :: "level option"

record serviceErrorOptions =
  HideDetails :: bool
  Code :: "32 word"
  Kind :: string
  ServiceName :: string
  Message :: string
  Destination :: string
  Logger :: "level option"
  Error :: "detail option"

definition newServiceError :: "serviceErrorOptions \<Rightarrow> ServiceError" where
  "newServiceError options =
     \<lparr>err_ptr = \<lparr>Error.Code = serviceErrorOptions.Code options,
              ServiceName = serviceErrorOptions.ServiceName options,
              Message = serviceErrorOptions.Message options,
              Destination = serviceErrorOptions.Destination options,
              Kind = serviceErrorOptions.Kind options,
              SublevelError = serviceErrorOptions.Error options,
              hideDetails = HideDetails options\<rparr>,
      attributes = [],
      logger = Logger options\<rparr>"

definition WithCode :: "ServiceError \<Rightarrow> 32 word \<Rightarrow> ServiceError" where
  "WithCode s code = s\<lparr>err_ptr := (err_ptr s)\<lparr>Error.Code := code\<rparr>\<rparr>"

definition WithAttributes :: "ServiceError \<Rightarrow> (string \<times> string) list \<Rightarrow> ServiceError" where
  "WithAttributes s attrs = s\<lparr>attributes := attrs\<rparr>"

text \<open>
  \<open>Submit\<close> returns the error and, when a logger is set, writes one log line: the
  level, the message, and the attributes, which start with the kind and the text of
  the nested error.
\<close>

definition Submit ::
  "ServiceError \<Rightarrow> Error \<times> (level \<times> string \<times> (string \<times> string) list) option" where
  "Submit s =
     (err_ptr s,
      case logger s of
        None \<Rightarrow> None
      | Some lvl \<Rightarrow>
          Some (lvl, Error.Message (err_ptr s),
                [(''error.kind'', Error.Kind (err_ptr s))] @
                (case Error.SublevelError (err_ptr s) of
                   None \<Rightarrow> []
                 | Some d \<Rightarrow> [(''error'', detailText d)]) @
                attributes s))"

text \<open>
  The factory. Each constructor binds one method of the factory's logger as the log
  function of the error it builds, so that function is never nil; the model keeps the
  level of the bound method in its place and leaves the logger itself out.
\<close>

record Factory =
  hideMessageDetails :: bool
  serviceName :: string

definition InvalidArgument :: "Factory \<Rightarrow> detail option \<Rightarrow> ServiceError" where
  "InvalidArgument f e =
     newServiceError
       \<lparr>HideDetails = hideMessageDetails f, Code = CodeInvalidArgument,
        Kind = KindValidation, ServiceName = serviceName f,
        Message = ''request validation failed'', Destination = [],
        Logger = Some Warn, Error = e\<rparr>"

definition FailedPrecondition :: "Factory \<Rightarrow> string \<Rightarrow> ServiceError" where
  "FailedPrecondition f message =
     newServiceError
       \<lparr>HideDetails = hideMessageDetails f, Code = CodePreconditionFailed,
        Kind = KindPrecondition, ServiceName = serviceName f,
        Message = ''failed precondition'', Destination = [],
        Logger = Some Warn, Error = Some (errors_New message)\<rparr>"

definition NotFound :: "Factory \<Rightarrow> ServiceError" where
  "NotFound f =
     newServiceError
       \<lparr>HideDetails = hideMessageDetails f, Code = CodeNotFound,
        Kind = KindNotFound, ServiceName = serviceName f,
        Message = ''not found'', Destination = [],
        Logger = Some Warn, Error = None\<rparr>"



section \<open>Reading JSON\<close>

text \<open>
  The errors that reach the HTTP boundary, by the dynamic types the code tells apart:
  the two errors of \<open>encoding/json\<close> (a syntax error with its message; a type error
  with its \<open>Value\<close>, \<open>Type\<close>, \<open>Struct\<close> and \<open>Field\<close>), the error of a gRPC
  status with its code and message, and every other error by its text.
\<close>

datatype go_error =
    PlainError string
  | SyntaxError string
  | UnmarshalTypeError string string string string
  | StatusError string string

fun Error_of :: "go_error \<Rightarrow> string" where
  "Error_of (PlainError text) = text"
| "Error_of (SyntaxError msg) = msg"
| "Error_of (UnmarshalTypeError v t s f) =
     (if s \<noteq> [] \<or> f \<noteq> []
      then ''json: cannot unmarshal '' @ v @ '' into Go struct field '' @ s @ ''.'' @ f @
           '' of type '' @ t
      else ''json: cannot unmarshal '' @ v @ '' into Go value of type '' @ t)"
| "Error_of (StatusError c m) = ''rpc error: code = '' @ c @ '' desc = '' @ m"

text \<open>
  \<open>json.Unmarshal\<close> is modelled as a parser of the JSON grammar, which reports the
  first offending byte with the scanner's message, followed by the decoding of the
  value into the struct. Three points of the library are left out: the limit of
  10000 on the nesting depth, the replacement of ill-formed UTF-8 inside string
  literals (their bytes are copied), and the range check of numbers stored in an
  \<open>interface{}\<close>.
\<close>

definition quoteChar :: "char \<Rightarrow> string" where
  "quoteChar c =
     (let n = (of_char c :: nat) in
      if c = CHR 0x27 then [CHR 0x27, backslash, CHR 0x27, CHR 0x27]
      else if c = dquote then [CHR 0x27, dquote, CHR 0x27]
      else CHR 0x27 #
        (if c = backslash then [backslash, backslash]
         else if n = 7 then [backslash, CHR ''a'']
         else if n = 8 then [backslash, CHR ''b'']
         else if n = 12 then [backslash, CHR ''f'']
         else if n = 10 then [backslash, CHR ''n'']
         else if n = 13 then [backslash, CHR ''r'']
         else if n = 9 then [backslash, CHR ''t'']
         else if n = 11 then [backslash, CHR ''v'']
         else if n < 0x20 \<or> n = 0x7F
           then [backslash, CHR ''x'', hexDigit (n div 16), hexDigit (n mod 16)]
         else if n < 0x80 then [c]
         else if n < 0xA1 \<or> n = 0xAD
           then [backslash, CHR ''u'', CHR ''0'', CHR ''0'',
                 hexDigit (n div 16), hexDigit (n mod 16)]
         else [char_of (0xC0 + n div 64), char_of (0x80 + n mod 64)]) @ [CHR 0x27])"

definition invalidCharacter :: "char \<Rightarrow> string \<Rightarrow> go_error" where
  "invalidCharacter c context =
     SyntaxError (''invalid character '' @ quoteChar c @ '' '' @ context)"

definition unexpectedEnd :: go_error where
  "unexpectedEnd = SyntaxError ''unexpected end of JSON input''"

definition isSpace :: "char \<Rightarrow> bool" where
  "isSpace c = (c = CHR 0x20 \<or> c = CHR 0x09 \<or> c = CHR 0x0D \<or> c = CHR 0x0A)"

definition isDigit :: "char \<Rightarrow> bool" where
  "isDigit c = (48 \<le> (of_char c :: nat) \<and> (of_char c :: nat) \<le> 57)"

fun skipSpace :: "string \<Rightarrow> string" where
  "skipSpace [] = []"
| "skipSpace (c # cs) = (if isSpace c then skipSpace cs else c # cs)"

fun takeDigits :: "string \<Rightarrow> string \<times> string" where
  "takeDigits [] = ([], [])"
| "takeDigits (c # cs) =
     (if isDigit c then (let (ds, rest) = takeDigits cs in (c # ds, rest)) else ([], c # cs))"

text \<open>The escapes of a string literal. \<open>encodeRune\<close> is \<open>utf8.EncodeRune\<close>.\<close>

definition hexVal :: "char \<Rightarrow> nat option" where
  "hexVal c =
     (let n = (of_char c :: nat) in
      if 48 \<le> n \<and> n \<le> 57 then Some (n - 48)
      else if 97 \<le> n \<and> n \<le> 102 then Some (n - 87)
      else if 65 \<le> n \<and> n \<le> 70 then Some (n - 55)
      else None)"

definition encodeRune :: "nat \<Rightarrow> string" where
  "encodeRune r =
     (if r < 0x80 then [char_of r]
      else if r < 0x800 then [char_of (0xC0 + r div 64), char_of (0x80 + r mod 64)]
      else if (0xD800 \<le> r \<and> r < 0xE000) \<or> 0x10FFFF < r then [CHR 0xEF, CHR 0xBF, CHR 0xBD]
      else if r < 0x10000
        then [char_of (0xE0 + r div 4096), char_of (0x80 + (r div 64) mod 64),
              char_of (0x80 + r mod 64)]
      else [char_of (0xF0 + r div 262144), char_of (0x80 + (r div 4096) mod 64),
            char_of (0x80 + (r div 64) mod 64), char_of (0x80 + r mod 64)])"

definition simpleEscape :: "char \<Rightarrow> char option" where
  "simpleEscape e =
     (if e = dquote \<or> e = backslash \<or> e = CHR ''/'' then Some e
      else if e = CHR ''b'' then Some (CHR 0x08)
      else if e = CHR ''f'' then Some (CHR 0x0C)
      else if e = CHR ''n'' then Some (CHR 0x0A)
      else if e = CHR ''r'' then Some (CHR 0x0D)
      else if e = CHR ''t'' then Some (CHR 0x09)
      else None)"

text \<open>Four hexadecimal digits: the rune, or the error at the first byte that is none.\<close>

fun hex4 :: "nat \<Rightarrow> nat \<Rightarrow> string \<Rightarrow> go_error + nat" where
  "hex4 0 acc s = Inr acc"
| "hex4 (Suc k) acc [] = Inl unexpectedEnd"
| "hex4 (Suc k) acc (c # cs) =
     (case hexVal c of
        None \<Rightarrow> Inl (invalidCharacter c ([backslash] @ ''u hexadecimal character escape''))
      | Some d \<Rightarrow> hex4 k (16 * acc + d) cs)"

text \<open>\<open>getu4\<close>: the rune of a \<open>\uXXXX\<close> at the start of the input, if there is one.\<close>

definition getu4 :: "string \<Rightarrow> nat option" where
  "getu4 s =
     (case s of
        b # u # rest \<Rightarrow>
          if b = backslash \<and> u = CHR ''u'' \<and> 4 \<le> length rest
          then (case hex4 4 0 rest of Inl _ \<Rightarrow> None | Inr r \<Rightarrow> Some r)
          else None
      | _ \<Rightarrow> None)"

text \<open>
  The body of a string literal, after its opening quote: the decoded bytes and the
  input behind the closing quote. A high surrogate followed by the escape of a low one
  is one rune; a surrogate alone is U+FFFD.
\<close>

function scanString :: "string \<Rightarrow> string \<Rightarrow> go_error + (string \<times> string)" where
  "scanString acc [] = Inl unexpectedEnd"
| "scanString acc (c # cs) =
     (if c = dquote then Inr (rev acc, cs)
      else if c = backslash then
        (case cs of
           [] \<Rightarrow> Inl unexpectedEnd
         | e # es \<Rightarrow>
             if e = CHR ''u'' then
               (case hex4 4 0 es of
                  Inl err \<Rightarrow> Inl err
                | Inr r \<Rightarrow>
                    if 0xD800 \<le> r \<and> r < 0xE000 then
                      (case getu4 (drop 4 es) of
                         Some r2 \<Rightarrow>
                           if r < 0xDC00 \<and> 0xDC00 \<le> r2 \<and> r2 < 0xE000
                           then scanString
                                  (rev (encodeRune
                                          (0x10000 + (r - 0xD800) * 1024 + (r2 - 0xDC00))) @ acc)
                                  (drop 10 es)
                           else scanString (rev (encodeRune 0xFFFD) @ acc) (drop 4 es)
                       | None \<Rightarrow> scanString (rev (encodeRune 0xFFFD) @ acc) (drop 4 es))
                    else scanString (rev (encodeRune r) @ acc) (drop 4 es))
             else
               (case simpleEscape e of
                  Some x \<Rightarrow> scanString (x # acc) es
                | None \<Rightarrow> Inl (invalidCharacter e ''in string escape code'')))
      else if (of_char c :: nat) < 0x20 then Inl (invalidCharacter c ''in string literal'')
      else scanString (c # acc) cs)"
  by pat_completeness auto
termination
  by (relation "measure (\<lambda>(acc, s). length s)") auto

text \<open>A number literal: the literal and the input behind it.\<close>

definition scanExponent :: "string \<Rightarrow> string \<Rightarrow> go_error + (string \<times> string)" where
  "scanExponent lit s =
     (case s of
        [] \<Rightarrow> Inr (lit, [])
      | e # r \<Rightarrow>
          if e = CHR ''e'' \<or> e = CHR ''E'' then
            (let (sg, r1) = (case r of
                               [] \<Rightarrow> ([], [])
                             | x # xs \<Rightarrow> if x = CHR ''+'' \<or> x = CHR ''-'' then ([x], xs)
                                         else ([], r))
             in case r1 of
                  [] \<Rightarrow> Inl unexpectedEnd
                | x # xs \<Rightarrow>
                    if isDigit x
                    then (let (ds, rest) = takeDigits xs in Inr (lit @ [e] @ sg @ x # ds, rest))
                    else Inl (invalidCharacter x ''in exponent of numeric literal''))
          else Inr (lit, s))"

definition scanFraction :: "string \<Rightarrow> string \<Rightarrow> go_error + (string \<times> string)" where
  "scanFraction lit s =
     (case s of
        [] \<Rightarrow> Inr (lit, [])
      | p # r \<Rightarrow>
          if p = CHR ''.'' then
            (case r of
               [] \<Rightarrow> Inl unexpectedEnd
             | x # xs \<Rightarrow>
                 if isDigit x
                 then (let (ds, rest) = takeDigits xs in scanExponent (lit @ [p] @ x # ds) rest)
                 else Inl (invalidCharacter x ''after decimal point in numeric literal''))
          else scanExponent lit s)"

definition scanNumber :: "string \<Rightarrow> go_error + (string \<times> string)" where
  "scanNumber s =
     (let (sign, s1) = (case s of
                          [] \<Rightarrow> ([], [])
                        | c # cs \<Rightarrow> if c = CHR ''-'' then ([c], cs) else ([], s))
      in case s1 of
           [] \<Rightarrow> Inl unexpectedEnd
         | d # ds \<Rightarrow>
             if d = CHR ''0'' then scanFraction (sign @ [d]) ds
             else if isDigit d
               then (let (ds1, rest) = takeDigits ds in scanFraction (sign @ d # ds1) rest)
             else Inl (invalidCharacter d ''in numeric literal''))"

text \<open>The rest of \<open>true\<close>, \<open>false\<close> or \<open>null\<close> behind its first letter.\<close>

fun scanLiteral :: "string \<Rightarrow> string \<Rightarrow> string \<Rightarrow> go_error + string" where
  "scanLiteral name [] s = Inr s"
| "scanLiteral name (x # xs) [] = Inl unexpectedEnd"
| "scanLiteral name (x # xs) (c # cs) =
     (if c = x then scanLiteral name xs cs
      else Inl (invalidCharacter c
                  (''in literal '' @ name @ '' (expecting '' @ quoteChar x @ '')'')))"

text \<open>
  The value parser. The first argument bounds the number of nested calls; every call
  reads at least one byte before it makes the next one, so the length of the input is
  enough, and with no bytes left each function reports the end of the input, as it
  does with no calls left.
\<close>

fun parseValue :: "nat \<Rightarrow> string \<Rightarrow> go_error + (json \<times> string)"
  and parseElements :: "nat \<Rightarrow> json list \<Rightarrow> string \<Rightarrow> go_error + (json \<times> string)"
  and parseMembers :: "nat \<Rightarrow> (string \<times> json) list \<Rightarrow> string \<Rightarrow> go_error + (json \<times> string)"
  where
  "parseValue 0 s = Inl unexpectedEnd"
| "parseValue (Suc n) [] = Inl unexpectedEnd"
| "parseValue (Suc n) (c # cs) =
     (if c = CHR ''{'' then
        (case skipSpace cs of
           [] \<Rightarrow> Inl unexpectedEnd
         | d # ds \<Rightarrow> if d = CHR ''}'' then Inr (JObject [], ds)
                     else parseMembers n [] (d # ds))
      else if c = CHR ''['' then
        (case skipSpace cs of
           [] \<Rightarrow> Inl unexpectedEnd
         | d # ds \<Rightarrow> if d = CHR '']'' then Inr (JArray [], ds)
                     else parseElements n [] (d # ds))
      else if c = dquote then
        (case scanString [] cs of
           Inl err \<Rightarrow> Inl err
         | Inr (str, rest) \<Rightarrow> Inr (JString str, rest))
      else if c = CHR ''-'' \<or> isDigit c then
        (case scanNumber (c # cs) of
           Inl err \<Rightarrow> Inl err
         | Inr (lit, rest) \<Rightarrow> Inr (JNumber lit, rest))
      else if c = CHR ''t'' then
        (case scanLiteral ''true'' ''rue'' cs of
           Inl err \<Rightarrow> Inl err
         | Inr rest \<Rightarrow> Inr (JBool True, rest))
      else if c = CHR ''f'' then
        (case scanLiteral ''false'' ''alse'' cs of
           Inl err \<Rightarrow> Inl err
         | Inr rest \<Rightarrow> Inr (JBool False, rest))
      else if c = CHR ''n'' then
        (case scanLiteral ''null'' ''ull'' cs of
           Inl err \<Rightarrow> Inl err
         | Inr rest \<Rightarrow> Inr (JNull, rest))
      else Inl (invalidCharacter c ''looking for beginning of value''))"
| "parseElements 0 acc s = Inl unexpectedEnd"
| "parseElements (Suc n) acc s =
     (case parseValue (Suc n) s of
        Inl err \<Rightarrow> Inl err
      | Inr (v, rest) \<Rightarrow>
          (case skipSpace rest of
             [] \<Rightarrow> Inl unexpectedEnd
           | d # ds \<Rightarrow>
               if d = CHR '','' then parseElements n (acc @ [v]) (skipSpace ds)
               else if d = CHR '']'' then Inr (JArray (acc @ [v]), ds)
               else Inl (invalidCharacter d ''after array element'')))"
| "parseMembers 0 acc s = Inl unexpectedEnd"
| "parseMembers (Suc n) acc [] = Inl unexpectedEnd"
| "parseMembers (Suc n) acc (c # cs) =
     (if c \<noteq> dquote
      then Inl (invalidCharacter c ''looking for beginning of object key string'')
      else
        (case scanString [] cs of
           Inl err \<Rightarrow> Inl err
         | Inr (key, r1) \<Rightarrow>
             (case skipSpace r1 of
                [] \<Rightarrow> Inl unexpectedEnd
              | d # ds \<Rightarrow>
                  if d \<noteq> CHR '':'' then Inl (invalidCharacter d ''after object key'')
                  else
                    (case parseValue n (skipSpace ds) of
                       Inl err \<Rightarrow> Inl err
                     | Inr (v, r2) \<Rightarrow>
                         (case skipSpace r2 of
                            [] \<Rightarrow> Inl unexpectedEnd
                          | x # xs \<Rightarrow>
                              if x = CHR '','' then parseMembers n (acc @ [(key, v)]) (skipSpace xs)
                              else if x = CHR ''}'' then Inr (JObject (acc @ [(key, v)]), xs)
                              else Inl (invalidCharacter x ''after object key:value pair''))))))"

definition parseJSON :: "string \<Rightarrow> go_error + json" where
  "parseJSON s =
     (case parseValue (length s) (skipSpace s) of
        Inl err \<Rightarrow> Inl err
      | Inr (v, rest) \<Rightarrow>
          (case skipSpace rest of
             [] \<Rightarrow> Inr v
           | c # _ \<Rightarrow> Inl (invalidCharacter c ''after top-level value'')))"

text \<open>
  Decoding into a \<open>serviceError\<close>. A member is matched to a field by its name without
  regard to the case of ASCII letters; an unknown member is skipped; \<open>null\<close> leaves
  a field as it is; a value of the wrong JSON type, or a number that is not an
  \<open>int32\<close>, is an \<open>UnmarshalTypeError\<close>, and the first one is the result.
\<close>

definition toLower :: "char \<Rightarrow> char" where
  "toLower c =
     (if 65 \<le> (of_char c :: nat) \<and> (of_char c :: nat) \<le> 90
      then char_of ((of_char c :: nat) + 32) else c)"

fun valueName :: "json \<Rightarrow> string" where
  "valueName JNull = ''null''"
| "valueName (JBool _) = ''bool''"
| "valueName (JNumber _) = ''number''"
| "valueName (JString _) = ''string''"
| "valueName (JArray _) = ''array''"
| "valueName (JObject _) = ''object''"

definition digitsValue :: "string \<Rightarrow> int" where
  "digitsValue ds = foldl (\<lambda>a c. 10 * a + ((of_char c :: int) - 48)) 0 ds"

text \<open>\<open>strconv.ParseInt\<close> on a number literal: only a literal without fraction and
  exponent is an integer.\<close>

definition parseIntLiteral :: "string \<Rightarrow> int option" where
  "parseIntLiteral lit =
     (case lit of
        [] \<Rightarrow> None
      | c # cs \<Rightarrow>
          if c = CHR ''-''
          then (if cs \<noteq> [] \<and> list_all isDigit cs then Some (- digitsValue cs) else None)
          else (if list_all isDigit lit then Some (digitsValue lit) else None))"

definition zeroServiceError :: serviceError where
  "zeroServiceError =
     \<lparr>serviceError.Code = 0, ServiceName = [], Message = [], Destination = [], Kind = [],
      SublevelError = None\<rparr>"

definition decodeStringField ::
  "string \<Rightarrow> json \<Rightarrow> (string \<Rightarrow> serviceError) \<Rightarrow> serviceError \<Rightarrow> go_error + serviceError" where
  "decodeStringField name v store s =
     (case v of
        JString str \<Rightarrow> Inr (store str)
      | JNull \<Rightarrow> Inr s
      | _ \<Rightarrow> Inl (UnmarshalTypeError (valueName v) ''string'' ''serviceError'' name))"

definition decodeMember :: "serviceError \<Rightarrow> string \<times> json \<Rightarrow> go_error + serviceError" where
  "decodeMember s m =
     (let name = map toLower (fst m); v = snd m in
      if name = ''code'' then
        (case v of
           JNull \<Rightarrow> Inr s
         | JNumber lit \<Rightarrow>
             (case parseIntLiteral lit of
                Some i \<Rightarrow>
                  if - (2 ^ 31) \<le> i \<and> i < 2 ^ 31 then Inr (s\<lparr>serviceError.Code := word_of_int i\<rparr>)
                  else Inl (UnmarshalTypeError (''number '' @ lit) ''int32'' ''serviceError'' name)
              | None \<Rightarrow>
                  Inl (UnmarshalTypeError (''number '' @ lit) ''int32'' ''serviceError'' name))
         | _ \<Rightarrow> Inl (UnmarshalTypeError (valueName v) ''int32'' ''serviceError'' name))
      else if name = ''service_name'' then
        decodeStringField name v (\<lambda>str. s\<lparr>serviceError.ServiceName := str\<rparr>) s
      else if name = ''message'' then
        decodeStringField name v (\<lambda>str. s\<lparr>serviceError.Message := str\<rparr>) s
      else if name = ''destination'' then
        decodeStringField name v (\<lambda>str. s\<lparr>serviceError.Destination := str\<rparr>) s
      else if name = ''kind'' then
        decodeStringField name v (\<lambda>str. s\<lparr>serviceError.Kind := str\<rparr>) s
      else if name = ''details'' then
        Inr (s\<lparr>serviceError.SublevelError := (case v of JNull \<Rightarrow> None | _ \<Rightarrow> Some v)\<rparr>)
      else Inr s)"

fun decodeMembers :: "serviceError \<Rightarrow> (string \<times> json) list \<Rightarrow> go_error + serviceError" where
  "decodeMembers s [] = Inr s"
| "decodeMembers s (m # ms) =
     (case decodeMember s m of
        Inl e \<Rightarrow> Inl e
      | Inr s' \<Rightarrow> decodeMembers s' ms)"

definition json_Unmarshal :: "string \<Rightarrow> go_error + serviceError" where
  "json_Unmarshal data =
     (case parseJSON data of
        Inl e \<Rightarrow> Inl e
      | Inr v \<Rightarrow>
          (case v of
             JObject ms \<Rightarrow> decodeMembers zeroServiceError ms
           | JNull \<Rightarrow> Inr zeroServiceError
           | _ \<Rightarrow> Inl (UnmarshalTypeError (valueName v) ''response.serviceError'' [] [])))"

definition serviceErrorFromString :: "string \<Rightarrow> go_error + serviceError" where
  "serviceErrorFromString s = json_Unmarshal s"

text \<open>
  \<open>json.Marshal\<close> of a decoded \<open>interface{}\<close>: the members of a map are written with
  their keys sorted bytewise, a key that occurred twice keeps its last value, and a
  number is written as its literal (the library formats the \<open>float64\<close> it stored).
\<close>

fun lessString :: "string \<Rightarrow> string \<Rightarrow> bool" where
  "lessString [] [] = False"
| "lessString [] (b # bs) = True"
| "lessString (a # as) [] = False"
| "lessString (a # as) (b # bs) =
     ((of_char a :: nat) < of_char b \<or> (a = b \<and> lessString as bs))"

fun insertMember :: "string \<times> string \<Rightarrow> (string \<times> string) list \<Rightarrow> (string \<times> string) list" where
  "insertMember m [] = [m]"
| "insertMember m (x # xs) =
     (if fst m = fst x then m # xs
      else if lessString (fst m) (fst x) then m # x # xs
      else x # insertMember m xs)"

definition mapMembers :: "(string \<times> string) list \<Rightarrow> (string \<times> string) list" where
  "mapMembers ms = foldl (\<lambda>acc m. insertMember m acc) [] ms"

fun joinValues :: "string list \<Rightarrow> string" where
  "joinValues [] = []"
| "joinValues [v] = v"
| "joinValues (v # w # vs) = v @ CHR '','' # joinValues (w # vs)"

fun marshalValue :: "json \<Rightarrow> string"
  and marshalValues :: "json list \<Rightarrow> string list"
  and marshalMembers :: "(string \<times> json) list \<Rightarrow> (string \<times> string) list" where
  "marshalValue JNull = ''null''"
| "marshalValue (JBool b) = (if b then ''true'' else ''false'')"
| "marshalValue (JNumber lit) = lit"
| "marshalValue (JString str) = quoteJSON str"
| "marshalValue (JArray vs) = CHR ''['' # joinValues (marshalValues vs) @ '']''"
| "marshalValue (JObject ms) = encodeObject (mapMembers (marshalMembers ms))"
| "marshalValues [] = []"
| "marshalValues (v # vs) = marshalValue v # marshalValues vs"
| "marshalMembers [] = []"
| "marshalMembers ((k, v) # ms) = (k, marshalValue v) # marshalMembers ms"

section \<open>Package response: the response body\<close>

definition invalidJsonBodyMsg :: string where
  "invalidJsonBodyMsg = ''invalid json body''"

definition invalidValueFieldJsonMsg :: string where
  "invalidValueFieldJsonMsg = ''invalid value for json field''"

definition internalServerErrorMsg :: string where
  "internalServerErrorMsg = ''internal service error''"

record responseError =
  Code :: int
  Source :: string
  Message :: string
  Details :: string
  Destination :: string
  Fields :: "Field list"

record responseErrorOptions =
  Code :: int
  Source :: string
  Message :: string
  Details :: string
  Destination :: string
  Fields :: "Field list"

definition newResponseError :: "responseErrorOptions \<Rightarrow> responseError" where
  "newResponseError options =
     \<lparr>responseError.Code = responseErrorOptions.Code options,
      Source = responseErrorOptions.Source options,
      Message = responseErrorOptions.Message options,
      Details = responseErrorOptions.Details options,
      Destination = responseErrorOptions.Destination options,
      Fields = responseErrorOptions.Fields options\<rparr>"

text \<open>The zero value of \<open>responseErrorOptions\<close>, which a composite literal starts from.\<close>

definition noOptions :: responseErrorOptions where
  "noOptions =
     \<lparr>responseErrorOptions.Code = 0, Source = [], Message = [], Details = [],
      Destination = [], Fields = []\<rparr>"

text \<open>\<open>json.Marshal\<close> of a \<open>Field\<close> and of a \<open>responseError\<close>: every member is left
  out when it is zero or empty.\<close>

definition marshalField :: "Field \<Rightarrow> string" where
  "marshalField f =
     encodeObject
       ((if Field.Field f = [] then [] else [(''field'', quoteJSON (Field.Field f))]) @
        (if Field.Message f = [] then [] else [(''message'', quoteJSON (Field.Message f))]) @
        (if Field.Location f = [] then [] else [(''location'', quoteJSON (Field.Location f))]))"

definition marshalResponseError :: "responseError \<Rightarrow> string" where
  "marshalResponseError e =
     encodeObject
       ((if responseError.Code e = 0 then []
         else [(''code'', formatInt (responseError.Code e))]) @
        (if responseError.Source e = [] then []
         else [(''source'', quoteJSON (responseError.Source e))]) @
        (if responseError.Message e = [] then []
         else [(''message'', quoteJSON (responseError.Message e))]) @
        (if responseError.Details e = [] then []
         else [(''details'', quoteJSON (responseError.Details e))]) @
        (if responseError.Destination e = [] then []
         else [(''destination'', quoteJSON (responseError.Destination e))]) @
        (if responseError.Fields e = [] then []
         else [(''fields'',
                CHR ''['' # joinValues (map marshalField (responseError.Fields e)) @ '']'')]))"

text \<open>
  \<open>ToResponseError\<close>. For a validation error with a nested value, the value is
  marshaled again and its first and last byte are cut off; the slice expression panics
  when the text has a single byte, which is \<open>None\<close> here.
\<close>

definition ToResponseError :: "serviceError \<Rightarrow> responseError option" where
  "ToResponseError s =
     (let opt = noOptions\<lparr>responseErrorOptions.Code := sint (serviceError.Code s),
                          responseErrorOptions.Source := serviceError.ServiceName s,
                          responseErrorOptions.Message := serviceError.Message s,
                          responseErrorOptions.Destination := serviceError.Destination s\<rparr>
      in case serviceError.SublevelError s of
           None \<Rightarrow> Some (newResponseError opt)
         | Some d \<Rightarrow>
             if serviceError.Kind s = ''ValidationError'' then
               (let b = marshalValue d in
                if length b < 2 then None
                else
                  (case newValidationErrorFields (take (length b - 2) (drop 1 b)) of
                     None \<Rightarrow> None
                   | Some fs \<Rightarrow>
                       Some (newResponseError (opt\<lparr>responseErrorOptions.Fields := fs\<rparr>))))
             else Some (newResponseError opt))"

text \<open>\<open>status.FromError\<close> and \<open>Status.Message\<close> of gRPC: a nil error is a nil status
  with \<open>ok\<close>, and the message of a nil status is empty.\<close>

fun status_FromError :: "go_error option \<Rightarrow> (string \<times> string) option \<times> bool" where
  "status_FromError None = (None, True)"
| "status_FromError (Some (StatusError c m)) = (Some (c, m), True)"
| "status_FromError (Some e) = (Some (''Unknown'', Error_of e), False)"

fun status_Message :: "(string \<times> string) option \<Rightarrow> string" where
  "status_Message None = []"
| "status_Message (Some (c, m)) = m"

fun jsonError :: "go_error option \<Rightarrow> responseError option" where
  "jsonError (Some (SyntaxError msg)) =
     Some \<lparr>responseError.Code = 0, Source = [], Message = invalidJsonBodyMsg, Details = [],
           Destination = [], Fields = []\<rparr>"
| "jsonError (Some (UnmarshalTypeError v t s f)) =
     Some \<lparr>responseError.Code = 0, Source = [], Message = invalidValueFieldJsonMsg,
           Details = ''unexpected value for field '' @ [CHR 0x27] @ f @ [CHR 0x27],
           Destination = [], Fields = []\<rparr>"
| "jsonError _ = None"

section \<open>Package response: the response writer\<close>

text \<open>
  The two runtimes. Of a \<open>fasthttp.RequestCtx\<close> the model keeps the content type of
  the request, the user values in the order of the slice that holds them, and what was
  set on the response: status code, headers, content type and body. A user value is an
  \<open>interface{}\<close>, told apart as the code does: an \<open>int\<close>, a \<open>string\<close>, anything
  else. Of an echo context the model keeps the headers set on the response, the status
  and the bytes handed to \<open>JSON\<close>, and the error that the runtime returns from
  \<open>JSON\<close>.
\<close>

datatype user_value = IntValue int | StringValue string | OtherValue

record RequestCtx =
  requestContentType :: string
  userValues :: "(string \<times> user_value) list"
  responseStatusCode :: int
  responseHeader :: "(string \<times> string) list"
  responseContentType :: string
  responseBody :: string

record echo_Context =
  echoHeader :: "(string \<times> string) list"
  echoJSON :: "(int \<times> string) option"
  echoError :: "go_error option"

datatype handler_context = Fasthttp RequestCtx | Echo echo_Context | NoContext

definition customHeaderPrefix :: string where
  "customHeaderPrefix = ''handler-attribute-''"

definition customResponseCode :: string where
  "customResponseCode = ''handler-response-code''"

text \<open>\<open>UserValue\<close> is the first value stored under the key; \<open>SetUserValue\<close> and
  \<open>Header.Set\<close> replace the value of a key that is there and append otherwise. The
  name of a header is kept as the code passes it; the runtime normalises its case.\<close>

definition UserValue :: "RequestCtx \<Rightarrow> string \<Rightarrow> user_value option" where
  "UserValue c key = map_of (userValues c) key"

fun setKey :: "string \<Rightarrow> 'v \<Rightarrow> (string \<times> 'v) list \<Rightarrow> (string \<times> 'v) list" where
  "setKey key v [] = [(key, v)]"
| "setKey key v (x # xs) = (if fst x = key then (key, v) # xs else x # setKey key v xs)"


record Response =
  customCode :: int
  serviceName :: string
  contentType :: string
  ctx :: handler_context

record Options =
  ServiceName :: string

definition NewFromFasthttp :: "RequestCtx \<Rightarrow> Options \<Rightarrow> Response" where
  "NewFromFasthttp c options =
     \<lparr>customCode = 0, serviceName = Options.ServiceName options,
      contentType = requestContentType c, ctx = Fasthttp c\<rparr>"


definition SetContentType :: "Response \<Rightarrow> string \<Rightarrow> Response" where
  "SetContentType r ct = r\<lparr>contentType := ct\<rparr>"

text \<open>
  \<open>setFasthttpCustomHeaders\<close>: every user value whose key has the prefix becomes a
  header. The type assertion \<open>value.(string)\<close> panics on a value that is no string,
  which is \<open>None\<close>.
\<close>

fun visitCustomHeaders ::
  "(string \<times> user_value) list \<Rightarrow> (string \<times> string) list \<Rightarrow> (string \<times> string) list option" where
  "visitCustomHeaders [] header = Some header"
| "visitCustomHeaders ((key, v) # kvs) header =
     (if HasPrefix key customHeaderPrefix then
        (case v of
           StringValue str \<Rightarrow>
             visitCustomHeaders kvs (setKey (TrimPrefix key customHeaderPrefix) str header)
         | _ \<Rightarrow> None)
      else visitCustomHeaders kvs header)"

definition setFasthttpCustomHeaders :: "RequestCtx \<Rightarrow> RequestCtx option" where
  "setFasthttpCustomHeaders c =
     map_option (\<lambda>h. c\<lparr>responseHeader := h\<rparr>)
       (visitCustomHeaders (userValues c) (responseHeader c))"

text \<open>
  The \<open>data\<close> handed to \<open>forwardOutput\<close> is an \<open>interface{}\<close>: a
  \<open>responseError\<close>, or a payload of the caller, of which the model keeps what
  \<open>json.Marshal\<close> returns for it and, when it implements \<open>Responser\<close>, the value
  of its \<open>HttpResponse\<close>.
\<close>

datatype payload =
    ResponseErrorValue responseError
  | Payload "go_error + string" "payload option"

fun json_Marshal :: "payload \<Rightarrow> go_error + string" where
  "json_Marshal (ResponseErrorValue e) = Inr (marshalResponseError e)"
| "json_Marshal (Payload out _) = out"

text \<open>
  \<open>forwardOutput\<close> and \<open>ForwardError\<close> call each other. The result is \<open>None\<close>
  for a panic, and otherwise the response with its context after the call and the
  returned error. In \<open>ForwardError\<close> the short variable declaration assigns the
  decoding error to the parameter \<open>err\<close>: from there on \<open>err\<close> is the error of
  \<open>serviceErrorFromString\<close>, and it is nil when the decoding went well.
\<close>

function forwardOutput :: "Response \<Rightarrow> int \<Rightarrow> payload \<Rightarrow> (Response \<times> go_error option) option"
  and ForwardError :: "Response \<Rightarrow> go_error \<Rightarrow> (Response \<times> go_error option) option" where
  "forwardOutput r statusCode data =
     (case json_Marshal data of
        Inl err \<Rightarrow> ForwardError r err
      | Inr out \<Rightarrow>
          (case ctx r of
             Fasthttp fctx \<Rightarrow>
               (case setFasthttpCustomHeaders fctx of
                  None \<Rightarrow> None
                | Some fctx1 \<Rightarrow>
                    (let statusCode1 =
                           (case UserValue fctx1 customResponseCode of
                              Some (IntValue c) \<Rightarrow> c
                            | _ \<Rightarrow> statusCode)
                     in Some (r\<lparr>ctx := Fasthttp
                                  (fctx1\<lparr>responseStatusCode := statusCode1,
                                          responseContentType := contentType r,
                                          responseBody := out\<rparr>)\<rparr>,
                              None)))
           | Echo ectx \<Rightarrow>
               (let statusCode1 = (if customCode r \<noteq> 0 then customCode r else statusCode);
                    ectx1 = ectx\<lparr>echoHeader :=
                                    setKey ''Content-Type'' (contentType r) (echoHeader ectx)\<rparr>
                in Some (r\<lparr>ctx := Echo (ectx1\<lparr>echoJSON := Some (statusCode1, out)\<rparr>)\<rparr>,
                         echoError ectx1))
           | NoContext \<Rightarrow> Some (r, None)))"
| "ForwardError r err0 =
     (case serviceErrorFromString (Error_of err0) of
        Inl err \<Rightarrow>
          forwardOutput r StatusInternalServerError
            (ResponseErrorValue
               (newResponseError
                  (noOptions\<lparr>responseErrorOptions.Message := internalServerErrorMsg,
                             responseErrorOptions.Details := Error_of err\<rparr>)))
      | Inr ferror \<Rightarrow>
          (let err = None in
           if IsKnownError ferror then
             (case ToResponseError ferror of
                None \<Rightarrow> None
              | Some body \<Rightarrow> forwardOutput r (ResponseCode ferror) (ResponseErrorValue body))
           else
             (case status_FromError err of
                (sts, True) \<Rightarrow>
                  forwardOutput r StatusInternalServerError
                    (ResponseErrorValue
                       (newResponseError
                          (noOptions\<lparr>responseErrorOptions.Message := internalServerErrorMsg,
                                     responseErrorOptions.Details := status_Message sts\<rparr>)))
              | (sts, False) \<Rightarrow>
                  (case jsonError err of
                     Some res \<Rightarrow> forwardOutput r StatusBadRequest (ResponseErrorValue res)
                   | None \<Rightarrow>
                       (case err of
                          None \<Rightarrow> None
                        | Some e \<Rightarrow>
                            forwardOutput r StatusInternalServerError
                              (ResponseErrorValue
                                 (newResponseError
                                    (noOptions\<lparr>responseErrorOptions.Source := Response.serviceName r,
                                               responseErrorOptions.Message := internalServerErrorMsg,
                                               responseErrorOptions.Details := Error_of e\<rparr>))))))))"
  by pat_completeness auto
termination
proof (relation "measure (\<lambda>x. case x of
                              Inl (r, c, d) \<Rightarrow> (case d of ResponseErrorValue _ \<Rightarrow> 0 | Payload _ _ \<Rightarrow> 2)
                            | Inr (r, e) \<Rightarrow> Suc 0)")
qed (auto split: payload.splits)

declare forwardOutput.simps [simp del] ForwardError.simps [simp del]

definition ForwardAuthenticationError ::
  "Response \<Rightarrow> go_error \<Rightarrow> (Response \<times> go_error option) option" where
  "ForwardAuthenticationError r err0 =
     (case serviceErrorFromString (Error_of err0) of
        Inl err \<Rightarrow>
          forwardOutput r StatusInternalServerError
            (ResponseErrorValue
               (newResponseError
                  (noOptions\<lparr>responseErrorOptions.Message := internalServerErrorMsg,
                             responseErrorOptions.Details := Error_of err\<rparr>)))
      | Inr ferror \<Rightarrow>
          if IsKnownError ferror then
            (case ToResponseError ferror of
               None \<Rightarrow> None
             | Some body \<Rightarrow> forwardOutput r (ResponseCode ferror) (ResponseErrorValue body))
          else Some (r, None))"






section \<open>Observations of a written response\<close>




text \<open>A request of each runtime, for the examples below.\<close>

definition exampleCtx :: RequestCtx where
  "exampleCtx =
     \<lparr>requestContentType = ''application/json'',
      userValues = [(''handler-attribute-x-trace'', StringValue ''abc'')],
      responseStatusCode = 0, responseHeader = [], responseContentType = [],
      responseBody = []\<rparr>"

definition exampleResponse :: Response where
  "exampleResponse = NewFromFasthttp exampleCtx \<lparr>ServiceName = ''billing''\<rparr>"


section \<open>Auxiliary notions for the codec\<close>



section \<open>Properties of the validation detail parser\<close>

text \<open>
  The parser never panics: every index it reads is in range. Its result is the
  entries of the segments in the order of the segments, each segment giving at most
  one entry and a segment with fewer than two colon parts giving none.
\<close>

lemma Split_not_Nil: "sep \<noteq> [] \<Longrightarrow> Split s sep \<noteq> []"
  by (subst Split.simps) (simp split: option.splits)

lemma index_Some: "i < length xs \<Longrightarrow> index xs i = Some (xs ! i)"
  by (simp add: index_def)

lemma getFieldNameAndLocation_returns:
  "\<exists>f l. getFieldNameAndLocation data = Some (f, l)"
proof -
  let ?res = "Split (TrimSpace data) ''@''"
  have "?res \<noteq> []" by (rule Split_not_Nil) simp
  then have "length ?res = 1 \<or> (0 < length ?res \<and> 1 < length ?res \<and> length ?res \<noteq> 1)"
    by (cases ?res) auto
  then show ?thesis
    by (auto simp: getFieldNameAndLocation_def Let_def index_def)
qed

lemma appendSegment_appends:
  "\<exists>es. appendSegment err re errs = Some (errs @ es) \<and> appendSegment err re [] = Some es \<and>
        length es \<le> 1 \<and>
        (length (Split (TrimSpace (ReplaceAll re [dquote] [])) '':'') < 2 \<longrightarrow> es = [])"
proof -
  let ?msg = "Split (TrimSpace (ReplaceAll re [dquote] [])) '':''"
  obtain f l where fl: "getFieldNameAndLocation (?msg ! 0) = Some (f, l)"
    using getFieldNameAndLocation_returns by blast
  consider (two) "length ?msg = 2" | (more) "2 < length ?msg" | (less) "length ?msg < 2"
    by arith
  then show ?thesis
  proof cases
    case two
    then show ?thesis
      by (simp add: appendSegment_def Let_def index_def fl)
  next
    case more
    then have "?msg \<noteq> []" by auto
    with more show ?thesis
      by (simp add: appendSegment_def Let_def index_def fl)
  next
    case less
    then show ?thesis
      by (simp add: appendSegment_def Let_def)
  qed
qed

lemma appendSegment_segmentFields:
  "appendSegment err re errs = Some (errs @ segmentFields err re)"
  using appendSegment_appends [of err re errs] by (auto simp: segmentFields_def)

lemma rangeSegments_concat:
  "rangeSegments err res errs = Some (errs @ concat (map (segmentFields err) res))"
  by (induction res arbitrary: errs) (simp_all add: appendSegment_segmentFields)

lemma newValidationErrorFields_returns:
  "newValidationErrorFields err =
     Some (concat (map (segmentFields err) (Split err [dquote, CHR '','', dquote])))"
  by (simp add: newValidationErrorFields_def rangeSegments_concat)

lemma segmentFields_dropped:
  "length (Split (TrimSpace (ReplaceAll re [dquote] [])) '':'') < 2 \<Longrightarrow> segmentFields err re = []"
  using appendSegment_appends [of err re "[]"] by (auto simp: segmentFields_def)

lemma segmentFields_at_most_one: "length (segmentFields err re) \<le> 1"
  using appendSegment_appends [of err re "[]"] by (auto simp: segmentFields_def)

text \<open>
  C3. The claim's input has a bare comma between the two entries, and the parser cuts
  only at quote-comma-quote. On the serialized form of the two entries, where each key
  and each message is quoted and the entries are joined by quote-comma-quote, the
  parser yields exactly the two field errors of the claim: the first with the default
  location body, the second with location query and its trailing period removed.
\<close>

theorem newValidationErrorFields_two_entries:
  \<open>newValidationErrorFields ''"field1": "message one","field2@query": "message two."'' =
     Some [\<lparr>Field = ''field1'', Message = ''message one'', Location = ''body''\<rparr>,
           \<lparr>Field = ''field2'', Message = ''message two'', Location = ''query''\<rparr>]\<close>
  by code_simp

text \<open>
  On the input as the claim writes it there is no quote-comma-quote, so the whole
  string is one segment with three colon-separated parts, and the parser yields one
  field error whose message holds the second entry.
\<close>

theorem newValidationErrorFields_bare_comma_counterexample:
  "newValidationErrorFields ''field1: message one, field2@query: message two.'' =
     Some [\<lparr>Field = ''field1'',
            Message = ''message one, field2@query: message two'',
            Location = ''body''\<rparr>] \<and>
   newValidationErrorFields ''field1: message one, field2@query: message two.'' \<noteq>
     Some [\<lparr>Field = ''field1'', Message = ''message one'', Location = ''body''\<rparr>,
           \<lparr>Field = ''field2'', Message = ''message two'', Location = ''query''\<rparr>]"
  by code_simp

text \<open>
  C4. In its serialized form the claim's segment is one segment whose colon split has
  three parts. The key is \<open>field\<close>, and \<open>formatMessage\<close> looks for \<open>field:\<close> in the
  whole input, where the key is followed by a quote; nothing is removed, and the message
  is the whole input.
\<close>

theorem newValidationErrorFields_quoted_colon_message:
  \<open>newValidationErrorFields ''"field":"value must be > 10: check config"'' =
     Some [\<lparr>Field = ''field'',
            Message = ''"field":"value must be > 10: check config"'',
            Location = ''body''\<rparr>]\<close>
  by code_simp

text \<open>Without the quotes, and alone in the input, the segment gives the claim's message.\<close>

lemma newValidationErrorFields_unquoted_colon_message:
  "newValidationErrorFields ''field: value must be > 10: check config'' =
     Some [\<lparr>Field = ''field'',
            Message = ''value must be > 10: check config'',
            Location = ''body''\<rparr>]"
  by code_simp

text \<open>
  C8. A segment without a colon gives no entry, but its text reaches the message of
  another segment whose colon split has more than two parts, since that message is
  cut out of the whole input.
\<close>

theorem newValidationErrorFields_dropped_segment_leaks:
  \<open>newValidationErrorFields ''"no colon here","a:b:c"'' =
     Some [\<lparr>Field = ''a'', Message = ''"no colon here","b:c"'', Location = ''body''\<rparr>] \<and>
   newValidationErrorFields ''"a:b:c"'' =
     Some [\<lparr>Field = ''a'', Message = ''"b:c"'', Location = ''body''\<rparr>]\<close>
  by code_simp

section \<open>Properties of the response classifier\<close>

text \<open>
  C7. \<open>ResponseCode\<close> reads the kind only: it is 400 for ValidationError, 404 for
  NotFoundError, 412 for ConditionError, 401 for PermissionError and 500 for
  InternalError and for every other kind, and two records with the same kind get the
  same status whatever their other fields.
\<close>

theorem ResponseCode_kind_only:
  "ResponseCode s =
     (if serviceError.Kind s = ''ValidationError'' then 400
      else if serviceError.Kind s = ''NotFoundError'' then 404
      else if serviceError.Kind s = ''ConditionError'' then 412
      else if serviceError.Kind s = ''PermissionError'' then 401
      else 500) \<and>
   (serviceError.Kind t = serviceError.Kind s \<longrightarrow> ResponseCode t = ResponseCode s)"
  by (simp add: ResponseCode_def StatusBadRequest_def StatusNotFound_def
      StatusPreconditionFailed_def StatusUnauthorized_def StatusInternalServerError_def)

theorem ResponseCode_kind_only_witness:
  "ResponseCode \<lparr>serviceError.Code = 7, ServiceName = ''a'', Message = ''m'', Destination = ''d'',
                  Kind = ''ConditionError'', SublevelError = Some JNull\<rparr> = 412 \<and>
   ResponseCode \<lparr>serviceError.Code = 0, ServiceName = [], Message = [], Destination = [],
                  Kind = ''ConditionError'', SublevelError = None\<rparr> =
   ResponseCode \<lparr>serviceError.Code = 7, ServiceName = ''a'', Message = ''m'', Destination = ''d'',
                  Kind = ''ConditionError'', SublevelError = Some JNull\<rparr>"
  using ResponseCode_kind_only
    [of "\<lparr>serviceError.Code = 7, ServiceName = ''a'', Message = ''m'', Destination = ''d'',
          Kind = ''ConditionError'', SublevelError = Some JNull\<rparr>"
        "\<lparr>serviceError.Code = 0, ServiceName = [], Message = [], Destination = [],
          Kind = ''ConditionError'', SublevelError = None\<rparr>"]
  by simp

section \<open>Properties of the rendering of an error\<close>





text \<open>
  The destination is copied into \<open>out\<close> before the test of \<open>hideDetails\<close>, so a
  record built with a destination renders it also when the details are hidden. No
  constructor of the factory sets a destination.
\<close>

lemma String_hidden_destination:
  "String (err_ptr (newServiceError \<lparr>HideDetails = True, Code = 9, Kind = KindInternal, ServiceName = ''billing'',
        Message = ''m'', Destination = ''queue-7'', Logger = None, Error = None\<rparr>)) =
   ''{\"code\":9,\"message\":\"m\",\"destination\":\"queue-7\",\"kind\":\"InternalError\"}''"
  by code_simp

text \<open>
  C9. When the nested error is a plain error value (\<open>errors.New\<close>), the rendered
  string does not depend on its text, and with the details shown the last member of
  the rendered object is details with the empty object as its value.
\<close>

theorem String_plain_detail:
  "Error.SublevelError e = Some (errors_New text) \<Longrightarrow>
   String (e\<lparr>Error.SublevelError := Some (errors_New text')\<rparr>) = String e \<and>
   (\<not> hideDetails e \<longrightarrow>
      (\<exists>ms. String e = encodeObject (ms @ [(''details'', ''{}'')]) \<and>
            ''details'' \<notin> fst ` set ms))"
proof -
  assume d: "Error.SublevelError e = Some (errors_New text)"
  have "String (e\<lparr>Error.SublevelError := Some (errors_New text')\<rparr>) = String e"
    using d
    by (simp add: String_def String_out_def Let_def json_Marshal_Error_def marshalFields_def
        errors_New_def)
  moreover have "\<exists>ms. String e = encodeObject (ms @ [(''details'', ''{}'')]) \<and>
            ''details'' \<notin> fst ` set ms" if "\<not> hideDetails e"
  proof -
    let ?ms = "[(''code'', formatInt (sint (Error.Code e)))] @
      (if Error.ServiceName e = [] then []
       else [(''service_name'', quoteJSON (Error.ServiceName e))]) @
      (if Error.Message e = [] then [] else [(''message'', quoteJSON (Error.Message e))]) @
      (if Error.Destination e = [] then []
       else [(''destination'', quoteJSON (Error.Destination e))]) @
      [(''kind'', quoteJSON (Error.Kind e))]"
    have "String e = encodeObject (?ms @ [(''details'', ''{}'')])"
      using d that
      by (simp add: String_def String_out_def Let_def json_Marshal_Error_def marshalFields_def
          errors_New_def)
    moreover have "''details'' \<notin> fst ` set ?ms" by auto
    ultimately show ?thesis by blast
  qed
  ultimately show ?thesis by simp
qed

theorem String_plain_detail_witness:
  "Error.SublevelError (err_ptr (FailedPrecondition \<lparr>hideMessageDetails = False, serviceName = ''billing''\<rparr> ''balance too low'')) =
     Some (errors_New ''balance too low'') \<and>
   \<not> hideDetails (err_ptr (FailedPrecondition \<lparr>hideMessageDetails = False, serviceName = ''billing''\<rparr> ''balance too low'')) \<and>
   String ((err_ptr (FailedPrecondition \<lparr>hideMessageDetails = False, serviceName = ''billing''\<rparr> ''balance too low''))
             \<lparr>Error.SublevelError := Some (errors_New ''other text'')\<rparr>) =
   String (err_ptr (FailedPrecondition \<lparr>hideMessageDetails = False, serviceName = ''billing''\<rparr> ''balance too low'')) \<and>
   (\<exists>ms. String (err_ptr (FailedPrecondition \<lparr>hideMessageDetails = False, serviceName = ''billing''\<rparr> ''balance too low'')) =
           encodeObject (ms @ [(''details'', ''{}'')]) \<and>
         ''details'' \<notin> fst ` set ms)"
proof -
  have d: "Error.SublevelError (err_ptr (FailedPrecondition \<lparr>hideMessageDetails = False, serviceName = ''billing''\<rparr> ''balance too low'')) =
     Some (errors_New ''balance too low'')"
    by (simp add: FailedPrecondition_def newServiceError_def)
  have h: "\<not> hideDetails (err_ptr (FailedPrecondition \<lparr>hideMessageDetails = False, serviceName = ''billing''\<rparr> ''balance too low''))"
    by (simp add: FailedPrecondition_def newServiceError_def)
  from String_plain_detail [OF d, where text' = "''other text''"] d h show ?thesis
    by simp
qed

lemma FailedPrecondition_String:
  "String (err_ptr (FailedPrecondition \<lparr>hideMessageDetails = False, serviceName = ''billing''\<rparr> ''balance too low'')) =
   ''{\"code\":4,\"service_name\":\"billing\",\"message\":\"failed precondition\",\"kind\":\"ConditionError\",\"details\":{}}''"
  by code_simp

section \<open>Properties of the response writer\<close>


lemma forwardOutput_NoContext:
  "ctx r = NoContext \<Longrightarrow> forwardOutput r statusCode (ResponseErrorValue e) = Some (r, None)"
  by (simp add: forwardOutput.simps)






text \<open>
  When the text decodes and the kind is unknown, \<open>err\<close> is nil, so
  \<open>status.FromError\<close> reports \<open>ok\<close> with a nil status: the response is a 500
  with empty details, and neither the branch of \<open>jsonError\<close> with its status 400
  nor the last branch is ever taken.
\<close>

lemma ForwardError_unknown_kind:
  "serviceErrorFromString (Error_of err) = Inr ferror \<Longrightarrow> \<not> IsKnownError ferror \<Longrightarrow>
   ForwardError r err =
     forwardOutput r 500
       (ResponseErrorValue
          \<lparr>responseError.Code = 0, Source = [], Message = internalServerErrorMsg,
           Details = [], Destination = [], Fields = []\<rparr>)"
  by (simp add: ForwardError.simps newResponseError_def noOptions_def
      StatusInternalServerError_def)








text \<open>
  C10. When the text of the error decodes and the kind is none of the five known ones,
  \<open>ForwardAuthenticationError\<close> returns nil and leaves the response and its context
  as they were: no status, header or body is written.
\<close>

theorem ForwardAuthenticationError_unknown_kind:
  "serviceErrorFromString (Error_of err) = Inr ferror \<Longrightarrow> \<not> IsKnownError ferror \<Longrightarrow>
   ForwardAuthenticationError r err = Some (r, None)"
  by (simp add: ForwardAuthenticationError_def)

theorem ForwardAuthenticationError_unknown_kind_witness:
  \<open>serviceErrorFromString (Error_of (PlainError ''{"kind":"TeapotError","message":"short and stout"}'')) =
     Inr \<lparr>serviceError.Code = 0, ServiceName = [], Message = ''short and stout'',
          Destination = [], Kind = ''TeapotError'', SublevelError = None\<rparr> \<and>
   \<not> IsKnownError \<lparr>serviceError.Code = 0, ServiceName = [], Message = ''short and stout'',
          Destination = [], Kind = ''TeapotError'', SublevelError = None\<rparr> \<and>
   ForwardAuthenticationError exampleResponse
     (PlainError ''{"kind":"TeapotError","message":"short and stout"}'') =
     Some (exampleResponse, None)\<close>
proof -
  have a: \<open>serviceErrorFromString (Error_of (PlainError ''{"kind":"TeapotError","message":"short and stout"}'')) =
     Inr \<lparr>serviceError.Code = 0, ServiceName = [], Message = ''short and stout'',
          Destination = [], Kind = ''TeapotError'', SublevelError = None\<rparr>\<close>
    by code_simp
  have b: "\<not> IsKnownError \<lparr>serviceError.Code = 0, ServiceName = [], Message = ''short and stout'',
          Destination = [], Kind = ''TeapotError'', SublevelError = None\<rparr>"
    by code_simp
  from ForwardAuthenticationError_unknown_kind [OF a b, of exampleResponse] a b show ?thesis
    by simp
qed



section \<open>Properties of the codec\<close>


























text \<open>
  One member of a rendered object: a quoted ASCII name, a colon, and a string, an
  integer or the empty object, followed by a comma or by the closing brace.
\<close>

lemma skipSpace_start: "\<not> isSpace c \<Longrightarrow> skipSpace (c # cs) = c # cs"
  by simp

























end
